theory Spec2Isabelle
  imports Complex_Main "HOL-Library.AList"
begin

section \<open>Data model of \<open>Control3D\<close> (src/gui/src/3D/controls/control3D.ts)\<close>

text \<open>
  Controls, managers, behaviors and meshes are JavaScript objects: they have an identity
  and are shared by reference (the manager's per-pointer tables hold controls).  A
  reference is a natural number and the objects live in a store indexed by reference.
  Observer callbacks, animation callbacks and behaviors are opaque to the class: the
  model records every call made to them in a trace and assumes that they do not call
  back into the control while they run.
\<close>

type_synonym control_ref = nat
type_synonym manager_ref = nat
type_synonym behavior_ref = nat
type_synonym mesh_ref = nat
type_synonym callback = nat

text \<open>Coordinates are only passed through, never computed with.\<close>

datatype Vector3 = Vector3 real real real

definition Vector3_Zero :: Vector3 where
  "Vector3_Zero = Vector3 0 0 0"

text \<open>\<open>new Vector3WithInfo(coordinates, buttonIndex)\<close>\<close>

datatype Vector3WithInfo = Vector3WithInfo Vector3 int

text \<open>
  The six notification channels with the event data each one carries:
  \<open>Observable<Vector3>\<close> for move, \<open>Observable<Control3D>\<close> for out and enter,
  \<open>Observable<Vector3WithInfo>\<close> for down, up and click.
\<close>

datatype notification =
    PointerMove Vector3
  | PointerOut control_ref
  | PointerDown Vector3WithInfo
  | PointerUp Vector3WithInfo
  | PointerClick Vector3WithInfo
  | PointerEnter control_ref

text \<open>
  What the class does to its collaborators, in the order it does it.
  \<open>Notify n target currentTarget observers\<close> is one call
  \<open>notifyObservers(eventData, -1, target, currentTarget)\<close> on the channel of \<open>n\<close>,
  reaching the listed observers.
\<close>

datatype event =
    Notify notification control_ref control_ref "callback list"
  | Animation callback
  | BehaviorInit behavior_ref
  | BehaviorAttach behavior_ref control_ref
  | BehaviorDetach behavior_ref
  | MeshDispose mesh_ref

text \<open>
  Modelled from the spec: the \<open>Observable\<close> class is not part of the sources.  Each
  channel "is a multi-subscriber broadcast point; subscribing/unsubscribing does not
  affect others; clear removes all subscribers without firing them".  An observable is
  the list of its subscribers.
\<close>

type_synonym Observable = "callback list"

definition clear_observers :: "Observable \<Rightarrow> Observable" where
  "clear_observers obs = []"

record Control3D =
  host :: manager_ref
  mesh :: "mesh_ref option"
  downCount :: int
  enterCount :: int
  downPointerIds :: "(int \<times> bool) list"
  pointerEnterAnimation :: "callback option"
  pointerOutAnimation :: "callback option"
  pointerDownAnimation :: "callback option"
  pointerUpAnimation :: "callback option"
  onPointerMoveObservable :: Observable
  onPointerOutObservable :: Observable
  onPointerDownObservable :: Observable
  onPointerUpObservable :: Observable
  onPointerClickObservable :: Observable
  onPointerEnterObservable :: Observable
  behaviors :: "behavior_ref list"

text \<open>
  Modelled from the spec: \<open>Scene\<close> and \<open>GUI3DManager\<close> are not part of the sources.
  The spec lists what the control consumes: \<open>scene.isLoading\<close>, the one-shot
  subscription point for load completion, and the manager's \<open>lastControlOver\<close>,
  \<open>lastControlDown\<close> (mappings from pointer id to control) and \<open>lastPickedControl\<close>.
  A one-shot subscriber registered by \<open>addBehavior\<close> is the closure
  \<open>() => behavior.attach(this)\<close>, kept as the pair of the behavior and the control.
\<close>

record Scene =
  isLoading :: bool
  onDataLoadedObservable :: "(behavior_ref \<times> control_ref) list"

record GUI3DManager =
  scene :: Scene
  lastControlOver :: "int \<rightharpoonup> control_ref"
  lastControlDown :: "int \<rightharpoonup> control_ref"
  lastPickedControl :: "control_ref option"

record world =
  controls :: "control_ref \<Rightarrow> Control3D"
  managers :: "manager_ref \<Rightarrow> GUI3DManager"
  trace :: "event list"

text \<open>
  Modelled from the spec: \<open>PointerEventTypes\<close> is not part of the sources; "event
  types are an enumeration {MOVE, DOWN, UP, other}".
\<close>

datatype PointerEventTypes = POINTERMOVE | POINTERDOWN | POINTERUP | POINTEROTHER

section \<open>Helpers for the store and the trace\<close>

definition update_control :: "control_ref \<Rightarrow> (Control3D \<Rightarrow> Control3D) \<Rightarrow> world \<Rightarrow> world" where
  "update_control c f w = w\<lparr>controls := (controls w)(c := f (controls w c))\<rparr>"

definition update_manager :: "manager_ref \<Rightarrow> (GUI3DManager \<Rightarrow> GUI3DManager) \<Rightarrow> world \<Rightarrow> world" where
  "update_manager h f w = w\<lparr>managers := (managers w)(h := f (managers w h))\<rparr>"

definition emit :: "event list \<Rightarrow> world \<Rightarrow> world" where
  "emit es w = w\<lparr>trace := trace w @ es\<rparr>"

text \<open>\<open>observable.notifyObservers(eventData, -1, target, currentTarget)\<close>\<close>

definition notifyObservers ::
  "Observable \<Rightarrow> notification \<Rightarrow> control_ref \<Rightarrow> control_ref \<Rightarrow> world \<Rightarrow> world" where
  "notifyObservers obs eventData target currentTarget w =
     emit [Notify eventData target currentTarget obs] w"

text \<open>\<open>if (this.pointerXAnimation) { this.pointerXAnimation(); }\<close>\<close>

definition callAnimation :: "callback option \<Rightarrow> world \<Rightarrow> world" where
  "callAnimation cb w = (case cb of None \<Rightarrow> w | Some f \<Rightarrow> emit [Animation f] w)"

text \<open>The trace of an optional animation callback: one call when it is set.\<close>

definition animation_events :: "callback option \<Rightarrow> event list" where
  "animation_events cb = (case cb of None \<Rightarrow> [] | Some f \<Rightarrow> [Animation f])"

section \<open>Pointer operations\<close>

text \<open>\<open>_onPointerMove(target, coordinates)\<close>, lines 244-246.\<close>

definition onPointerMove :: "control_ref \<Rightarrow> control_ref \<Rightarrow> Vector3 \<Rightarrow> world \<Rightarrow> world" where
  "onPointerMove this target coordinates w =
     notifyObservers (onPointerMoveObservable (controls w this))
       (PointerMove coordinates) target this w"

text \<open>\<open>_onPointerEnter(target)\<close>, lines 249-263.\<close>

definition onPointerEnter :: "control_ref \<Rightarrow> control_ref \<Rightarrow> world \<Rightarrow> bool \<times> world" where
  "onPointerEnter this target w =
     (if enterCount (controls w this) \<noteq> 0 then (False, w)
      else
        let w1 = update_control this (\<lambda>c. c\<lparr>enterCount := enterCount c + 1\<rparr>) w;
            w2 = notifyObservers (onPointerEnterObservable (controls w1 this))
                   (PointerEnter this) target this w1;
            w3 = callAnimation (pointerEnterAnimation (controls w2 this)) w2
        in (True, w3))"

text \<open>\<open>_onPointerOut(target)\<close>, lines 266-274.\<close>

definition onPointerOut :: "control_ref \<Rightarrow> control_ref \<Rightarrow> world \<Rightarrow> world" where
  "onPointerOut this target w =
     (let w1 = update_control this (\<lambda>c. c\<lparr>enterCount := 0\<rparr>) w;
          w2 = notifyObservers (onPointerOutObservable (controls w1 this))
                 (PointerOut this) target this w1
      in callAnimation (pointerOutAnimation (controls w2 this)) w2)"

text \<open>
  \<open>_onPointerDown(target, coordinates, pointerId, buttonIndex)\<close>, lines 277-293.
  \<open>this._downPointerIds[pointerId] = true\<close> keeps the position of a key that is
  already there and appends a new one, as \<open>AList.update\<close> does.
\<close>

definition onPointerDown ::
  "control_ref \<Rightarrow> control_ref \<Rightarrow> Vector3 \<Rightarrow> int \<Rightarrow> int \<Rightarrow> world \<Rightarrow> bool \<times> world" where
  "onPointerDown this target coordinates pointerId buttonIndex w =
     (if downCount (controls w this) \<noteq> 0 then (False, w)
      else
        let w1 = update_control this (\<lambda>c. c\<lparr>downCount := downCount c + 1\<rparr>) w;
            w2 = update_control this
                   (\<lambda>c. c\<lparr>downPointerIds := AList.update pointerId True (downPointerIds c)\<rparr>) w1;
            w3 = notifyObservers (onPointerDownObservable (controls w2 this))
                   (PointerDown (Vector3WithInfo coordinates buttonIndex)) target this w2;
            w4 = callAnimation (pointerDownAnimation (controls w3 this)) w3
        in (True, w4))"

text \<open>
  \<open>_onPointerUp(target, coordinates, pointerId, buttonIndex, notifyClick)\<close>,
  lines 296-309.
\<close>

definition onPointerUp ::
  "control_ref \<Rightarrow> control_ref \<Rightarrow> Vector3 \<Rightarrow> int \<Rightarrow> int \<Rightarrow> bool \<Rightarrow> world \<Rightarrow> world" where
  "onPointerUp this target coordinates pointerId buttonIndex notifyClick w =
     (let w1 = update_control this (\<lambda>c. c\<lparr>downCount := 0\<rparr>) w;
          w2 = update_control this
                 (\<lambda>c. c\<lparr>downPointerIds := AList.delete pointerId (downPointerIds c)\<rparr>) w1;
          w3 = (if notifyClick \<and> enterCount (controls w2 this) > 0
                then notifyObservers (onPointerClickObservable (controls w2 this))
                       (PointerClick (Vector3WithInfo coordinates buttonIndex)) target this w2
                else w2);
          w4 = notifyObservers (onPointerUpObservable (controls w3 this))
                 (PointerUp (Vector3WithInfo coordinates buttonIndex)) target this w3
      in callAnimation (pointerUpAnimation (controls w4 this)) w4)"

text \<open>
  The events of one call of \<open>_onPointerUp\<close> on a control whose fields are \<open>c\<close>: the
  click notification when \<open>notifyClick\<close> is set and the control is entered, then the up
  notification, then the up animation when there is one.
\<close>

definition up_events ::
  "Control3D \<Rightarrow> control_ref \<Rightarrow> control_ref \<Rightarrow> Vector3 \<Rightarrow> int \<Rightarrow> bool \<Rightarrow> event list" where
  "up_events c this target coordinates buttonIndex notifyClick =
     (if notifyClick \<and> enterCount c > 0
      then [Notify (PointerClick (Vector3WithInfo coordinates buttonIndex)) target this
              (onPointerClickObservable c)]
      else []) @
     Notify (PointerUp (Vector3WithInfo coordinates buttonIndex)) target this
       (onPointerUpObservable c) #
     animation_events (pointerUpAnimation c)"

text \<open>
  \<open>for (var key in this._downPointerIds)\<close>: the keys of an object are enumerated with
  the array indices (the integers from 0 to 2^32 - 2) first, in ascending order, then the
  other keys in the order they were created.  A key deleted before the loop reaches it
  is skipped.  \<open>+key\<close> turns the key back into the number it was made from.
\<close>

definition isArrayIndex :: "int \<Rightarrow> bool" where
  "isArrayIndex k = (0 \<le> k \<and> k < 2 ^ 32 - 1)"

definition forIn_keys :: "(int \<times> bool) list \<Rightarrow> int list" where
  "forIn_keys obj =
     sort (filter isArrayIndex (map fst obj)) @
     filter (\<lambda>k. \<not> isArrayIndex k) (map fst obj)"

fun forcePointerUp_loop :: "control_ref \<Rightarrow> int list \<Rightarrow> world \<Rightarrow> world" where
  "forcePointerUp_loop this [] w = w"
| "forcePointerUp_loop this (key # keys) w =
     forcePointerUp_loop this keys
       (if key \<in> set (map fst (downPointerIds (controls w this)))
        then onPointerUp this this Vector3_Zero key 0 True w
        else w)"

text \<open>\<open>forcePointerUp(pointerId = null)\<close>, lines 312-320.\<close>

definition forcePointerUp :: "control_ref \<Rightarrow> int option \<Rightarrow> world \<Rightarrow> world" where
  "forcePointerUp this pointerId w =
     (case pointerId of
        Some pid \<Rightarrow> onPointerUp this this Vector3_Zero pid 0 True w
      | None \<Rightarrow> forcePointerUp_loop this (forIn_keys (downPointerIds (controls w this))) w)"

text \<open>\<open>_processObservables(type, pickedPoint, pointerId, buttonIndex)\<close>, lines 323-356.\<close>

definition processObservables ::
  "control_ref \<Rightarrow> PointerEventTypes \<Rightarrow> Vector3 \<Rightarrow> int \<Rightarrow> int \<Rightarrow> world \<Rightarrow> bool \<times> world" where
  "processObservables this type pickedPoint pointerId buttonIndex w =
     (case type of
        POINTERMOVE \<Rightarrow>
          let w1 = onPointerMove this this pickedPoint w;
              previousControlOver = lastControlOver (managers w1 (host (controls w1 this))) pointerId;
              w2 = (case previousControlOver of
                      Some p \<Rightarrow> if p \<noteq> this then onPointerOut p this w1 else w1
                    | None \<Rightarrow> w1);
              w3 = (if previousControlOver \<noteq> Some this
                    then snd (onPointerEnter this this w2) else w2);
              w4 = update_manager (host (controls w3 this))
                     (\<lambda>m. m\<lparr>lastControlOver := (lastControlOver m)(pointerId \<mapsto> this)\<rparr>) w3
          in (True, w4)
      | POINTERDOWN \<Rightarrow>
          let w1 = snd (onPointerDown this this pickedPoint pointerId buttonIndex w);
              w2 = update_manager (host (controls w1 this))
                     (\<lambda>m. m\<lparr>lastControlDown := (lastControlDown m)(pointerId \<mapsto> this)\<rparr>) w1;
              w3 = update_manager (host (controls w2 this))
                     (\<lambda>m. m\<lparr>lastPickedControl := Some this\<rparr>) w2
          in (True, w3)
      | POINTERUP \<Rightarrow>
          let w1 = (case lastControlDown (managers w (host (controls w this))) pointerId of
                      Some d \<Rightarrow> onPointerUp d this pickedPoint pointerId buttonIndex True w
                    | None \<Rightarrow> w);
              w2 = update_manager (host (controls w1 this))
                     (\<lambda>m. m\<lparr>lastControlDown := (lastControlDown m)(pointerId := None)\<rparr>) w1
          in (True, w2)
      | POINTEROTHER \<Rightarrow> (False, w))"

section \<open>Behaviors and disposal\<close>

text \<open>\<open>addBehavior(behavior)\<close>, lines 77-97.\<close>

definition addBehavior :: "control_ref \<Rightarrow> behavior_ref \<Rightarrow> world \<Rightarrow> world" where
  "addBehavior this behavior w =
     (if behavior \<in> set (behaviors (controls w this)) then w
      else
        let w1 = emit [BehaviorInit behavior] w;
            h = host (controls w1 this);
            w2 = (if isLoading (scene (managers w1 h))
                  then update_manager h
                         (\<lambda>m. m\<lparr>scene := (scene m)\<lparr>onDataLoadedObservable :=
                                  onDataLoadedObservable (scene m) @ [(behavior, this)]\<rparr>\<rparr>) w1
                  else emit [BehaviorAttach behavior this] w1)
        in update_control this (\<lambda>c. c\<lparr>behaviors := behaviors c @ [behavior]\<rparr>) w2)"

text \<open>\<open>dispose()\<close>, lines 361-378.\<close>

definition dispose :: "control_ref \<Rightarrow> world \<Rightarrow> world" where
  "dispose this w =
     (let w1 = update_control this
                 (\<lambda>c. c\<lparr>onPointerDownObservable := clear_observers (onPointerDownObservable c)\<rparr>) w;
          w2 = update_control this
                 (\<lambda>c. c\<lparr>onPointerEnterObservable := clear_observers (onPointerEnterObservable c)\<rparr>) w1;
          w3 = update_control this
                 (\<lambda>c. c\<lparr>onPointerMoveObservable := clear_observers (onPointerMoveObservable c)\<rparr>) w2;
          w4 = update_control this
                 (\<lambda>c. c\<lparr>onPointerOutObservable := clear_observers (onPointerOutObservable c)\<rparr>) w3;
          w5 = update_control this
                 (\<lambda>c. c\<lparr>onPointerUpObservable := clear_observers (onPointerUpObservable c)\<rparr>) w4;
          w6 = update_control this
                 (\<lambda>c. c\<lparr>onPointerClickObservable := clear_observers (onPointerClickObservable c)\<rparr>) w5;
          w7 = (case mesh (controls w6 this) of
                  Some m \<Rightarrow> update_control this (\<lambda>c. c\<lparr>mesh := None\<rparr>) (emit [MeshDispose m] w6)
                | None \<Rightarrow> w6)
      in emit (map BehaviorDetach (behaviors (controls w7 this))) w7)"

section \<open>Construction and drivers\<close>

text \<open>
  A control as its constructor and field initialisers leave it (lines 9-61, 169-172),
  with \<open>_host\<close> set by the manager that owns it.
\<close>

definition new_Control3D :: "manager_ref \<Rightarrow> Control3D" where
  "new_Control3D h =
     \<lparr>host = h, mesh = None, downCount = 0, enterCount = 0, downPointerIds = [],
      pointerEnterAnimation = None, pointerOutAnimation = None,
      pointerDownAnimation = None, pointerUpAnimation = None,
      onPointerMoveObservable = [], onPointerOutObservable = [],
      onPointerDownObservable = [], onPointerUpObservable = [],
      onPointerClickObservable = [], onPointerEnterObservable = [],
      behaviors = []\<rparr>"

definition new_GUI3DManager :: "bool \<Rightarrow> GUI3DManager" where
  "new_GUI3DManager loading =
     \<lparr>scene = \<lparr>isLoading = loading, onDataLoadedObservable = []\<rparr>,
      lastControlOver = Map.empty, lastControlDown = Map.empty, lastPickedControl = None\<rparr>"

text \<open>
  A world to run the operations in: every control is fresh, belongs to manager 0 and has
  one subscriber on each of its six channels (subscriber \<open>10 * r + k\<close> on channel \<open>k\<close>
  of control \<open>r\<close>); no scene is loading.
\<close>

definition watched :: "control_ref \<Rightarrow> Control3D \<Rightarrow> Control3D" where
  "watched r c =
     c\<lparr>onPointerMoveObservable := [10 * r + 1], onPointerOutObservable := [10 * r + 2],
       onPointerDownObservable := [10 * r + 3], onPointerUpObservable := [10 * r + 4],
       onPointerClickObservable := [10 * r + 5], onPointerEnterObservable := [10 * r + 6]\<rparr>"

definition example_world :: world where
  "example_world =
     \<lparr>controls = (\<lambda>r. watched r (new_Control3D 0)),
      managers = (\<lambda>h. new_GUI3DManager False),
      trace = []\<rparr>"

text \<open>A run of \<open>_onPointerEnter\<close> calls on one control, one per target, with their results.\<close>

fun enter_calls :: "control_ref \<Rightarrow> control_ref list \<Rightarrow> world \<Rightarrow> bool list \<times> world" where
  "enter_calls this [] w = ([], w)"
| "enter_calls this (t # ts) w =
     (let (r, w1) = onPointerEnter this t w;
          (rs, w2) = enter_calls this ts w1
      in (r # rs, w2))"

text \<open>
  Two worlds reached from \<open>example_world\<close> through the routing entry point.  In
  \<open>two_pointers_world\<close> pointer 7 is over control 3 and pointer 8 is over control 2.  In
  \<open>pressed_world\<close> pointer 5 has moved over control 2 and pressed it.
\<close>

definition two_pointers_world :: world where
  "two_pointers_world =
     snd (processObservables 2 POINTERMOVE (Vector3 0 0 0) 8 0
       (snd (processObservables 3 POINTERMOVE (Vector3 0 0 0) 7 0 example_world)))"

definition pressed_world :: world where
  "pressed_world =
     snd (processObservables 2 POINTERDOWN (Vector3 0 0 0) 5 0
       (snd (processObservables 2 POINTERMOVE (Vector3 0 0 0) 5 0 example_world)))"

text \<open>
  In \<open>two_down_world\<close> control 2 is held down by pointers 5 and 4: after
  \<open>pressed_world\<close>, pointer 4 presses (the guard refuses it), releases (which resets the
  down count) and presses again.  \<open>loading_world\<close> is \<open>example_world\<close> with every
  scene still loading.
\<close>

definition two_down_world :: world where
  "two_down_world =
     snd (processObservables 2 POINTERDOWN (Vector3 0 0 0) 4 0
       (snd (processObservables 2 POINTERUP (Vector3 0 0 0) 4 0
         (snd (processObservables 2 POINTERDOWN (Vector3 0 0 0) 4 0 pressed_world)))))"

definition loading_world :: world where
  "loading_world = example_world\<lparr>managers := (\<lambda>h. new_GUI3DManager True)\<rparr>"

text \<open>
  The pointer operations of the class as calls, to run any sequence of them on any
  controls of a world.
\<close>

datatype pointer_call =
    OnPointerMove control_ref control_ref Vector3
  | OnPointerEnter control_ref control_ref
  | OnPointerOut control_ref control_ref
  | OnPointerDown control_ref control_ref Vector3 int int
  | OnPointerUp control_ref control_ref Vector3 int int bool
  | ForcePointerUp control_ref "int option"
  | ProcessObservables control_ref PointerEventTypes Vector3 int int

fun call :: "pointer_call \<Rightarrow> world \<Rightarrow> world" where
  "call (OnPointerMove this target coordinates) w = onPointerMove this target coordinates w"
| "call (OnPointerEnter this target) w = snd (onPointerEnter this target w)"
| "call (OnPointerOut this target) w = onPointerOut this target w"
| "call (OnPointerDown this target coordinates pointerId buttonIndex) w =
     snd (onPointerDown this target coordinates pointerId buttonIndex w)"
| "call (OnPointerUp this target coordinates pointerId buttonIndex notifyClick) w =
     onPointerUp this target coordinates pointerId buttonIndex notifyClick w"
| "call (ForcePointerUp this pointerId) w = forcePointerUp this pointerId w"
| "call (ProcessObservables this type pickedPoint pointerId buttonIndex) w =
     snd (processObservables this type pickedPoint pointerId buttonIndex w)"

definition calls :: "pointer_call list \<Rightarrow> world \<Rightarrow> world" where
  "calls cs w = fold call cs w"

text \<open>
  \<open>channel n c\<close> is the observable of control \<open>c\<close> that a notification \<open>n\<close> is sent on.
  \<open>reached c e\<close> lists the observers of control \<open>c\<close> that the event \<open>e\<close> calls: the
  observers of a notification sent by \<open>c\<close>, none for any other event.
\<close>

definition channel :: "notification \<Rightarrow> Control3D \<Rightarrow> Observable" where
  "channel n c =
     (case n of
        PointerMove _ \<Rightarrow> onPointerMoveObservable c
      | PointerOut _ \<Rightarrow> onPointerOutObservable c
      | PointerDown _ \<Rightarrow> onPointerDownObservable c
      | PointerUp _ \<Rightarrow> onPointerUpObservable c
      | PointerClick _ \<Rightarrow> onPointerClickObservable c
      | PointerEnter _ \<Rightarrow> onPointerEnterObservable c)"

definition reached :: "control_ref \<Rightarrow> event \<Rightarrow> callback list" where
  "reached c e =
     (case e of
        Notify n target currentTarget obs \<Rightarrow> if currentTarget = c then obs else []
      | _ \<Rightarrow> [])"

text \<open>
  The invariant of the pointer operations: \<open>steps w w'\<close> holds when \<open>w'\<close> has the
  observables of \<open>w\<close> on every control and extends the trace of \<open>w\<close> by events whose
  notifications went to the observers that the sending control has in \<open>w\<close>.
\<close>

definition sourced :: "world \<Rightarrow> event \<Rightarrow> bool" where
  "sourced w e =
     (case e of
        Notify n target currentTarget obs \<Rightarrow> obs = channel n (controls w currentTarget)
      | _ \<Rightarrow> True)"

definition steps :: "world \<Rightarrow> world \<Rightarrow> bool" where
  "steps w w' \<longleftrightarrow>
     (\<forall>n x. channel n (controls w' x) = channel n (controls w x)) \<and>
     (\<exists>es. trace w' = trace w @ es \<and> list_all (sourced w) es)"

section \<open>Basic facts about the store\<close>

lemma controls_update_control [simp]:
  "controls (update_control c f w) = (controls w)(c := f (controls w c))"
  by (simp add: update_control_def)

lemma managers_update_control [simp]: "managers (update_control c f w) = managers w"
  by (simp add: update_control_def)

lemma trace_update_control [simp]: "trace (update_control c f w) = trace w"
  by (simp add: update_control_def)

lemma controls_update_manager [simp]: "controls (update_manager h f w) = controls w"
  by (simp add: update_manager_def)

lemma managers_update_manager [simp]:
  "managers (update_manager h f w) = (managers w)(h := f (managers w h))"
  by (simp add: update_manager_def)

lemma trace_update_manager [simp]: "trace (update_manager h f w) = trace w"
  by (simp add: update_manager_def)

lemma controls_emit [simp]: "controls (emit es w) = controls w"
  by (simp add: emit_def)

lemma managers_emit [simp]: "managers (emit es w) = managers w"
  by (simp add: emit_def)

lemma trace_emit [simp]: "trace (emit es w) = trace w @ es"
  by (simp add: emit_def)

lemma controls_notifyObservers [simp]:
  "controls (notifyObservers obs d t c w) = controls w"
  by (simp add: notifyObservers_def)

lemma managers_notifyObservers [simp]:
  "managers (notifyObservers obs d t c w) = managers w"
  by (simp add: notifyObservers_def)

lemma trace_notifyObservers [simp]:
  "trace (notifyObservers obs d t c w) = trace w @ [Notify d t c obs]"
  by (simp add: notifyObservers_def)

lemma controls_callAnimation [simp]: "controls (callAnimation cb w) = controls w"
  by (simp add: callAnimation_def split: option.splits)

lemma managers_callAnimation [simp]: "managers (callAnimation cb w) = managers w"
  by (simp add: callAnimation_def split: option.splits)

lemma trace_callAnimation [simp]:
  "trace (callAnimation cb w) = trace w @ animation_events cb"
  by (simp add: callAnimation_def animation_events_def split: option.splits)

section \<open>What each pointer operation does\<close>

lemma onPointerEnter_guard:
  "enterCount (controls w this) \<noteq> 0 \<Longrightarrow> onPointerEnter this target w = (False, w)"
  by (simp add: onPointerEnter_def)

lemma onPointerEnter_fires:
  assumes "enterCount (controls w this) = 0"
  shows "fst (onPointerEnter this target w) = True"
    and "controls (snd (onPointerEnter this target w)) =
           (controls w)(this := (controls w this)\<lparr>enterCount := 1\<rparr>)"
    and "managers (snd (onPointerEnter this target w)) = managers w"
    and "trace (snd (onPointerEnter this target w)) =
           trace w @ Notify (PointerEnter this) target this
                       (onPointerEnterObservable (controls w this)) #
                     animation_events (pointerEnterAnimation (controls w this))"
  using assms by (simp_all add: onPointerEnter_def Let_def)

lemma onPointerOut_effect:
  "controls (onPointerOut this target w) =
     (controls w)(this := (controls w this)\<lparr>enterCount := 0\<rparr>)"
  "managers (onPointerOut this target w) = managers w"
  "trace (onPointerOut this target w) =
     trace w @ Notify (PointerOut this) target this
                 (onPointerOutObservable (controls w this)) #
               animation_events (pointerOutAnimation (controls w this))"
  by (simp_all add: onPointerOut_def Let_def)

lemma onPointerDown_guard:
  "downCount (controls w this) \<noteq> 0 \<Longrightarrow>
   onPointerDown this target coordinates pointerId buttonIndex w = (False, w)"
  by (simp add: onPointerDown_def)

lemma onPointerDown_fires:
  assumes "downCount (controls w this) = 0"
  shows "fst (onPointerDown this target coordinates pointerId buttonIndex w) = True"
    and "controls (snd (onPointerDown this target coordinates pointerId buttonIndex w)) =
           (controls w)(this := (controls w this)
              \<lparr>downCount := 1,
               downPointerIds := AList.update pointerId True (downPointerIds (controls w this))\<rparr>)"
    and "managers (snd (onPointerDown this target coordinates pointerId buttonIndex w)) =
           managers w"
    and "trace (snd (onPointerDown this target coordinates pointerId buttonIndex w)) =
           trace w @ Notify (PointerDown (Vector3WithInfo coordinates buttonIndex)) target this
                       (onPointerDownObservable (controls w this)) #
                     animation_events (pointerDownAnimation (controls w this))"
  using assms by (simp_all add: onPointerDown_def Let_def)

lemma onPointerUp_effect:
  "controls (onPointerUp this target coordinates pointerId buttonIndex notifyClick w) =
     (controls w)(this := (controls w this)
        \<lparr>downCount := 0,
         downPointerIds := AList.delete pointerId (downPointerIds (controls w this))\<rparr>)"
  "managers (onPointerUp this target coordinates pointerId buttonIndex notifyClick w) =
     managers w"
  "trace (onPointerUp this target coordinates pointerId buttonIndex notifyClick w) =
     trace w @ up_events (controls w this) this target coordinates buttonIndex notifyClick"
  by (simp_all add: onPointerUp_def up_events_def Let_def)

lemma enter_calls_suppressed:
  "enterCount (controls w this) \<noteq> 0 \<Longrightarrow>
   enter_calls this ts w = (replicate (length ts) False, w)"
  by (induction ts) (simp_all add: onPointerEnter_guard)

lemma host_onPointerOut [simp]: "host (controls (onPointerOut p t w) c) = host (controls w c)"
  by (simp add: onPointerOut_effect)

lemma host_onPointerEnter [simp]:
  "host (controls (snd (onPointerEnter p t w)) c) = host (controls w c)"
  by (simp add: onPointerEnter_def Let_def)

lemma host_onPointerDown [simp]:
  "host (controls (snd (onPointerDown p t v i b w)) c) = host (controls w c)"
  by (simp add: onPointerDown_def Let_def)

lemma host_onPointerUp [simp]:
  "host (controls (onPointerUp p t v i b n w) c) = host (controls w c)"
  by (simp add: onPointerUp_effect)

section \<open>The release loop of \<open>forcePointerUp\<close>\<close>

lemma up_events_onPointerUp [simp]:
  "up_events (controls (onPointerUp this t v k b n w) this) = up_events (controls w this)"
  by (simp add: fun_eq_iff onPointerUp_effect up_events_def)

lemma dom_delete: "fst ` set (AList.delete k al) = fst ` set al - {k}"
  by (induction al) auto

lemma forcePointerUp_loop_trace:
  "distinct keys \<Longrightarrow> set keys \<subseteq> fst ` set (downPointerIds (controls w this)) \<Longrightarrow>
   trace (forcePointerUp_loop this keys w) =
     trace w @ concat (map (\<lambda>key. up_events (controls w this) this this Vector3_Zero 0 True) keys)"
proof (induction keys arbitrary: w)
  case Nil
  then show ?case by simp
next
  case (Cons key keys)
  let ?w1 = "onPointerUp this this Vector3_Zero key 0 True w"
  have present: "key \<in> fst ` set (downPointerIds (controls w this))"
    using Cons.prems by simp
  have sub: "set keys \<subseteq> fst ` set (downPointerIds (controls ?w1 this))"
    using Cons.prems by (auto simp: onPointerUp_effect dom_delete)
  have dist: "distinct keys" using Cons.prems by simp
  have "trace (forcePointerUp_loop this keys ?w1) =
      trace ?w1 @ concat (map (\<lambda>key. up_events (controls ?w1 this) this this Vector3_Zero 0 True) keys)"
    by (rule Cons.IH [OF dist sub])
  then show ?case
    using present by (simp add: onPointerUp_effect(3))
qed

lemma forcePointerUp_loop_ids:
  "downPointerIds (controls (forcePointerUp_loop this keys w) this) =
     filter (\<lambda>p. fst p \<notin> set keys) (downPointerIds (controls w this))"
proof (induction keys arbitrary: w)
  case Nil
  then show ?case by simp
next
  case (Cons key keys)
  show ?case
  proof (cases "key \<in> fst ` set (downPointerIds (controls w this))")
    case True
    have "filter (\<lambda>p. fst p \<notin> set keys) (AList.delete key (downPointerIds (controls w this)))
      = filter (\<lambda>p. fst p \<noteq> key \<and> fst p \<notin> set keys) (downPointerIds (controls w this))"
      unfolding AList.delete_eq filter_filter by (intro filter_cong) auto
    with True show ?thesis
      by (simp add: Cons.IH onPointerUp_effect)
  next
    case False
    then have "filter (\<lambda>p. fst p \<noteq> key \<and> fst p \<notin> set keys) (downPointerIds (controls w this))
      = filter (\<lambda>p. fst p \<notin> set keys) (downPointerIds (controls w this))"
      by (intro filter_cong) auto
    with False show ?thesis by (simp add: Cons.IH)
  qed
qed

lemma set_forIn_keys: "set (forIn_keys obj) = fst ` set obj"
  by (auto simp: forIn_keys_def)

lemma distinct_forIn_keys: "distinct (map fst obj) \<Longrightarrow> distinct (forIn_keys obj)"
  by (auto simp: forIn_keys_def)

section \<open>Adding a behavior\<close>

lemma addBehavior_present:
  "behavior \<in> set (behaviors (controls w this)) \<Longrightarrow> addBehavior this behavior w = w"
  by (simp add: addBehavior_def)

lemma addBehavior_new:
  assumes "behavior \<notin> set (behaviors (controls w this))"
  shows "controls (addBehavior this behavior w) =
           (controls w)(this := (controls w this)
              \<lparr>behaviors := behaviors (controls w this) @ [behavior]\<rparr>)"
    and "trace (addBehavior this behavior w) =
           trace w @ BehaviorInit behavior #
             (if isLoading (scene (managers w (host (controls w this)))) then []
              else [BehaviorAttach behavior this])"
    and "onDataLoadedObservable (scene (managers (addBehavior this behavior w)
             (host (controls w this)))) =
           onDataLoadedObservable (scene (managers w (host (controls w this)))) @
             (if isLoading (scene (managers w (host (controls w this))))
              then [(behavior, this)] else [])"
  using assms by (simp_all add: addBehavior_def Let_def)

lemma addBehavior_member:
  "behavior \<in> set (behaviors (controls (addBehavior this behavior w) this))"
  by (cases "behavior \<in> set (behaviors (controls w this))")
    (simp_all add: addBehavior_present addBehavior_new)

section \<open>No pointer operation changes an observable\<close>

lemma steps_refl [simp]: "steps w w"
  by (simp add: steps_def)

lemma steps_trans: "steps w w' \<Longrightarrow> steps w' w'' \<Longrightarrow> steps w w''"
  by (auto simp: steps_def sourced_def list_all_iff split: event.splits)

lemma sourced_animation_events [simp]: "list_all (sourced w) (animation_events cb)"
  by (simp add: animation_events_def sourced_def split: option.splits)

lemma channel_update [simp]:
  "channel n (c\<lparr>enterCount := e\<rparr>) = channel n c"
  "channel n (c\<lparr>downCount := d\<rparr>) = channel n c"
  "channel n (c\<lparr>downPointerIds := i\<rparr>) = channel n c"
  by (simp_all add: channel_def split: notification.splits)

lemma channel_simps [simp]:
  "channel (PointerMove v) c = onPointerMoveObservable c"
  "channel (PointerOut r) c = onPointerOutObservable c"
  "channel (PointerDown i) c = onPointerDownObservable c"
  "channel (PointerUp i) c = onPointerUpObservable c"
  "channel (PointerClick i) c = onPointerClickObservable c"
  "channel (PointerEnter r) c = onPointerEnterObservable c"
  by (simp_all add: channel_def)

lemma sourced_Notify [simp]:
  "sourced w (Notify n t cur obs) \<longleftrightarrow> obs = channel n (controls w cur)"
  by (simp add: sourced_def)

lemma steps_onPointerMove: "steps w (onPointerMove this t v w)"
  by (simp add: steps_def onPointerMove_def)

lemma steps_onPointerEnter: "steps w (snd (onPointerEnter this t w))"
  by (cases "enterCount (controls w this) = 0")
    (simp_all add: steps_def onPointerEnter_fires onPointerEnter_guard)

lemma steps_onPointerOut: "steps w (onPointerOut this t w)"
  by (simp add: steps_def onPointerOut_effect)

lemma steps_onPointerDown: "steps w (snd (onPointerDown this t v i b w))"
  by (cases "downCount (controls w this) = 0")
    (simp_all add: steps_def onPointerDown_fires onPointerDown_guard)

lemma steps_onPointerUp: "steps w (onPointerUp this t v i b n w)"
  by (simp add: steps_def onPointerUp_effect up_events_def)

lemma steps_update_manager: "steps w w' \<Longrightarrow> steps w (update_manager h f w')"
  by (simp add: steps_def)

lemma steps_forcePointerUp_loop: "steps w (forcePointerUp_loop this keys w)"
proof (induction keys arbitrary: w)
  case Nil
  show ?case by simp
next
  case (Cons key keys)
  show ?case
    using steps_trans [OF steps_onPointerUp Cons.IH] Cons.IH by simp
qed

lemma steps_forcePointerUp: "steps w (forcePointerUp this pid w)"
  by (simp add: forcePointerUp_def steps_onPointerUp steps_forcePointerUp_loop
      split: option.splits)

lemma steps_processObservables: "steps w (snd (processObservables this ty v i b w))"
proof (cases ty)
  case POINTERMOVE
  let ?w1 = "onPointerMove this this v w"
  let ?prev = "lastControlOver (managers ?w1 (host (controls ?w1 this))) i"
  let ?w2 = "case ?prev of Some p \<Rightarrow> if p \<noteq> this then onPointerOut p this ?w1 else ?w1
             | None \<Rightarrow> ?w1"
  let ?w3 = "if ?prev \<noteq> Some this then snd (onPointerEnter this this ?w2) else ?w2"
  have s1: "steps w ?w1" by (rule steps_onPointerMove)
  have "steps ?w1 ?w2" by (simp add: steps_onPointerOut split: option.splits)
  with s1 have s2: "steps w ?w2" by (rule steps_trans)
  have "steps ?w2 ?w3" by (simp add: steps_onPointerEnter)
  with s2 have "steps w ?w3" by (rule steps_trans)
  then show ?thesis
    using POINTERMOVE by (simp add: processObservables_def Let_def steps_update_manager)
next
  case POINTERDOWN
  then show ?thesis
    by (simp add: processObservables_def Let_def steps_update_manager steps_onPointerDown)
next
  case POINTERUP
  then show ?thesis
    by (simp add: processObservables_def Let_def steps_update_manager steps_onPointerUp
        split: option.splits)
next
  case POINTEROTHER
  then show ?thesis by (simp add: processObservables_def)
qed

lemma steps_call: "steps w (call c w)"
  by (cases c)
    (simp_all add: steps_onPointerMove steps_onPointerEnter steps_onPointerOut
      steps_onPointerDown steps_onPointerUp steps_forcePointerUp steps_processObservables)

lemma steps_calls: "steps w (calls cs w)"
  unfolding calls_def
proof (induction cs arbitrary: w)
  case Nil
  show ?case by simp
next
  case (Cons c cs)
  show ?case using steps_trans [OF steps_call Cons.IH] by simp
qed

lemma steps_silent:
  assumes "steps w w'" and "\<And>n. channel n (controls w c) = []"
  shows "concat (map (reached c) (drop (length (trace w)) (trace w'))) = []"
proof -
  obtain es where es: "trace w' = trace w @ es" "list_all (sourced w) es"
    using assms(1) by (auto simp: steps_def)
  have "reached c e = []" if "e \<in> set es" for e
    using that es(2) assms(2) by (auto simp: list_all_iff sourced_def reached_def split: event.splits)
  then show ?thesis by (simp add: es(1))
qed

lemma dispose_effect:
  "controls (dispose this w) =
     (controls w)(this := (controls w this)
        \<lparr>mesh := None,
         onPointerMoveObservable := [], onPointerOutObservable := [],
         onPointerDownObservable := [], onPointerUpObservable := [],
         onPointerClickObservable := [], onPointerEnterObservable := []\<rparr>)"
  "managers (dispose this w) = managers w"
  "trace (dispose this w) =
     trace w @ (case mesh (controls w this) of Some m \<Rightarrow> [MeshDispose m] | None \<Rightarrow> []) @
     map BehaviorDetach (behaviors (controls w this))"
  by (simp_all add: dispose_def Let_def clear_observers_def fun_eq_iff split: option.splits)

section \<open>Evaluating the example worlds\<close>

lemmas run_simps = processObservables_def Let_def onPointerMove_def onPointerOut_def
  onPointerEnter_def onPointerDown_def onPointerUp_def example_world_def watched_def
  new_Control3D_def new_GUI3DManager_def callAnimation_def notifyObservers_def
  update_control_def update_manager_def emit_def animation_events_def

lemma pressed_world_simps:
  "controls pressed_world =
     (\<lambda>r. watched r (new_Control3D 0))
       (2 := (watched 2 (new_Control3D 0))
          \<lparr>downCount := 1, enterCount := 1, downPointerIds := [(5, True)]\<rparr>)"
  "managers pressed_world =
     (\<lambda>h. new_GUI3DManager False)
       (0 := (new_GUI3DManager False)
          \<lparr>lastControlOver := [5 \<mapsto> 2], lastControlDown := [5 \<mapsto> 2],
           lastPickedControl := Some 2\<rparr>)"
  "trace pressed_world =
     [Notify (PointerMove (Vector3 0 0 0)) 2 2 [21], Notify (PointerEnter 2) 2 2 [26],
      Notify (PointerDown (Vector3WithInfo (Vector3 0 0 0) 0)) 2 2 [23]]"
  by (simp_all add: pressed_world_def run_simps fun_eq_iff)

lemma two_down_world_simps:
  "controls two_down_world 2 =
     (watched 2 (new_Control3D 0))
        \<lparr>downCount := 1, enterCount := 1, downPointerIds := [(5, True), (4, True)]\<rparr>"
  by (simp add: two_down_world_def processObservables_def Let_def onPointerDown_def
      onPointerUp_effect pressed_world_simps watched_def new_Control3D_def new_GUI3DManager_def)

lemma loading_world_simps:
  "behaviors (controls example_world r) = []"
  "behaviors (controls loading_world r) = []"
  "host (controls example_world r) = 0"
  "host (controls loading_world r) = 0"
  "scene (managers example_world h) = \<lparr>isLoading = False, onDataLoadedObservable = []\<rparr>"
  "scene (managers loading_world h) = \<lparr>isLoading = True, onDataLoadedObservable = []\<rparr>"
  "trace example_world = []"
  "trace loading_world = []"
  by (simp_all add: loading_world_def example_world_def watched_def new_Control3D_def
      new_GUI3DManager_def)

lemma equipped_world_simps:
  "controls (addBehavior 2 7 pressed_world) =
     (controls pressed_world)(2 := (controls pressed_world 2)\<lparr>behaviors := [7]\<rparr>)"
  "managers (addBehavior 2 7 pressed_world) = managers pressed_world"
  "trace (addBehavior 2 7 pressed_world) =
     trace pressed_world @ [BehaviorInit 7, BehaviorAttach 7 2]"
  by (simp_all add: addBehavior_def Let_def pressed_world_simps watched_def new_Control3D_def
      new_GUI3DManager_def)

section \<open>The claims\<close>

text \<open>
  C1 (enter/out guard law).  On a control that is not entered, a run of
  \<open>_onPointerEnter\<close> calls with no \<open>_onPointerOut\<close> in between returns true for the first
  call and false for every later one, and the whole run fires the enter notification
  once (followed by the enter animation when one is set) and nothing else.  One
  \<open>_onPointerOut\<close> after the run fires the out notification and leaves the enter count at
  0; it does so from any state \<open>v\<close>, whatever the enter count was: a reset, not a
  decrement.
\<close>

theorem enter_out_guard_law:
  assumes "enterCount (controls w this) = 0"
  shows "fst (enter_calls this (t # ts) w) = True # replicate (length ts) False
       \<and> trace (snd (enter_calls this (t # ts) w)) =
           trace w @ Notify (PointerEnter this) t this
                       (onPointerEnterObservable (controls w this)) #
                     animation_events (pointerEnterAnimation (controls w this))
       \<and> enterCount (controls (onPointerOut this t' (snd (enter_calls this (t # ts) w))) this) = 0
       \<and> trace (onPointerOut this t' (snd (enter_calls this (t # ts) w))) =
           trace (snd (enter_calls this (t # ts) w)) @
           Notify (PointerOut this) t' this (onPointerOutObservable (controls w this)) #
           animation_events (pointerOutAnimation (controls w this))
       \<and> enterCount (controls (onPointerOut this t' v) this) = 0"
proof -
  obtain w1 where w1: "onPointerEnter this t w = (True, w1)"
    using onPointerEnter_fires(1) [OF assms, of t] by (cases "onPointerEnter this t w") simp
  have c1: "controls w1 = (controls w)(this := (controls w this)\<lparr>enterCount := 1\<rparr>)"
    using onPointerEnter_fires(2) [OF assms, of t] w1 by simp
  have t1: "trace w1 = trace w @ Notify (PointerEnter this) t this
                       (onPointerEnterObservable (controls w this)) #
                     animation_events (pointerEnterAnimation (controls w this))"
    using onPointerEnter_fires(4) [OF assms, of t] w1 by simp
  have "enterCount (controls w1 this) \<noteq> 0" by (simp add: c1)
  then have run: "enter_calls this (t # ts) w = (True # replicate (length ts) False, w1)"
    by (simp add: w1 enter_calls_suppressed)
  show ?thesis
    unfolding run by (simp add: t1 c1 onPointerOut_effect)
qed

theorem enter_out_guard_law_witness:
  "enterCount (controls example_world 1) = 0
   \<and> fst (enter_calls 1 [1, 2, 3] example_world) = [True, False, False]
   \<and> trace (snd (enter_calls 1 [1, 2, 3] example_world)) = [Notify (PointerEnter 1) 1 1 [16]]
   \<and> enterCount (controls (onPointerOut 1 2 (snd (enter_calls 1 [1, 2, 3] example_world))) 1) = 0
   \<and> trace (onPointerOut 1 2 (snd (enter_calls 1 [1, 2, 3] example_world))) =
       [Notify (PointerEnter 1) 1 1 [16], Notify (PointerOut 1) 2 1 [12]]"
proof -
  have h: "enterCount (controls example_world 1) = 0"
    by (simp add: example_world_def watched_def new_Control3D_def)
  show ?thesis
    using h enter_out_guard_law [OF h, of 1 "[2, 3]" 2]
    by (simp add: example_world_def watched_def new_Control3D_def animation_events_def)
qed

text \<open>
  C2, as the code has it.  Routing a MOVE for pointer \<open>pid\<close> to control \<open>B\<close> while the
  manager's \<open>lastControlOver[pid]\<close> is another control \<open>A\<close> returns true, fires the move
  notification on \<open>B\<close>, then exactly one out notification on \<open>A\<close> targeted at \<open>B\<close>, then
  the enter notification on \<open>B\<close> targeted at \<open>B\<close> provided that \<open>B\<close> is not entered
  already (its enter count is 0); when \<open>B\<close> is entered already, the guard of
  \<open>_onPointerEnter\<close> suppresses the enter notification.  Afterwards
  \<open>lastControlOver[pid]\<close> is \<open>B\<close>.
\<close>

theorem move_between_controls:
  assumes "lastControlOver (managers w (host (controls w B))) pid = Some A" and "A \<noteq> B"
  shows "fst (processObservables B POINTERMOVE pickedPoint pid buttonIndex w) = True
       \<and> trace (snd (processObservables B POINTERMOVE pickedPoint pid buttonIndex w)) =
           trace w @
           [Notify (PointerMove pickedPoint) B B (onPointerMoveObservable (controls w B))] @
           Notify (PointerOut A) B A (onPointerOutObservable (controls w A)) #
           animation_events (pointerOutAnimation (controls w A)) @
           (if enterCount (controls w B) = 0
            then Notify (PointerEnter B) B B (onPointerEnterObservable (controls w B)) #
                 animation_events (pointerEnterAnimation (controls w B))
            else [])
       \<and> lastControlOver
            (managers (snd (processObservables B POINTERMOVE pickedPoint pid buttonIndex w))
               (host (controls w B))) pid = Some B"
  using assms
  by (simp add: processObservables_def Let_def onPointerMove_def onPointerOut_effect
      onPointerEnter_def)

theorem move_between_controls_witness:
  "lastControlOver (managers two_pointers_world (host (controls two_pointers_world 4))) 8 = Some 2
   \<and> (2::nat) \<noteq> 4
   \<and> trace (snd (processObservables 4 POINTERMOVE (Vector3 1 2 3) 8 0 two_pointers_world)) =
       trace two_pointers_world @
       [Notify (PointerMove (Vector3 1 2 3)) 4 4 [41], Notify (PointerOut 2) 4 2 [22],
        Notify (PointerEnter 4) 4 4 [46]]
   \<and> lastControlOver
        (managers (snd (processObservables 4 POINTERMOVE (Vector3 1 2 3) 8 0 two_pointers_world)) 0)
        8 = Some 4"
proof -
  have h: "lastControlOver (managers two_pointers_world (host (controls two_pointers_world 4))) 8
             = Some 2"
    by (simp add: two_pointers_world_def run_simps)
  have n: "(2::nat) \<noteq> 4" by simp
  have c: "controls two_pointers_world 4 = watched 4 (new_Control3D 0)"
    "controls two_pointers_world 2 = (watched 2 (new_Control3D 0))\<lparr>enterCount := 1\<rparr>"
    by (simp_all add: two_pointers_world_def run_simps)
  show ?thesis
    using h n move_between_controls [OF h n, of "Vector3 1 2 3" 0]
    by (simp add: c watched_def new_Control3D_def animation_events_def)
qed

text \<open>
  C2 as stated fails: in \<open>two_pointers_world\<close> pointer 7 is already over control 3, so
  when pointer 8 moves from control 2 to control 3 the out notification fires on control
  2 and no enter notification fires on control 3.
\<close>

theorem move_between_controls_counterexample:
  "lastControlOver (managers two_pointers_world (host (controls two_pointers_world 3))) 8 = Some 2
   \<and> trace (snd (processObservables 3 POINTERMOVE (Vector3 1 2 3) 8 0 two_pointers_world)) =
       trace two_pointers_world @
       [Notify (PointerMove (Vector3 1 2 3)) 3 3 [31], Notify (PointerOut 2) 3 2 [22]]"
  by (simp add: two_pointers_world_def run_simps)

text \<open>
  C3.  Routing an UP for pointer \<open>pid\<close> through the entry point of any control \<open>B\<close>
  returns true and leaves no \<open>lastControlDown\<close> entry for \<open>pid\<close>.  When the entry was
  control \<open>A\<close>, the call is \<open>A._onPointerUp(B, pickedPoint, pid, buttonIndex, true)\<close>: the
  up notification (after the click notification when \<open>A\<close> is entered) fires on \<open>A\<close>,
  targeted at \<open>B\<close>.  When there was no entry, nothing fires and no control changes.
\<close>

theorem up_routed_to_last_down:
  "fst (processObservables B POINTERUP pickedPoint pid buttonIndex w) = True
   \<and> lastControlDown
        (managers (snd (processObservables B POINTERUP pickedPoint pid buttonIndex w))
           (host (controls w B))) pid = None
   \<and> (\<forall>A. lastControlDown (managers w (host (controls w B))) pid = Some A \<longrightarrow>
        trace (snd (processObservables B POINTERUP pickedPoint pid buttonIndex w)) =
          trace w @ up_events (controls w A) A B pickedPoint buttonIndex True
        \<and> controls (snd (processObservables B POINTERUP pickedPoint pid buttonIndex w)) =
            controls (onPointerUp A B pickedPoint pid buttonIndex True w))
   \<and> (lastControlDown (managers w (host (controls w B))) pid = None \<longrightarrow>
        trace (snd (processObservables B POINTERUP pickedPoint pid buttonIndex w)) = trace w
        \<and> controls (snd (processObservables B POINTERUP pickedPoint pid buttonIndex w)) =
            controls w)"
  by (simp add: processObservables_def Let_def onPointerUp_effect split: option.splits)

theorem up_routed_to_last_down_witness:
  "lastControlDown (managers pressed_world (host (controls pressed_world 3))) 5 = Some 2
   \<and> trace (snd (processObservables 3 POINTERUP (Vector3 1 2 3) 5 1 pressed_world)) =
       trace pressed_world @
       [Notify (PointerClick (Vector3WithInfo (Vector3 1 2 3) 1)) 3 2 [25],
        Notify (PointerUp (Vector3WithInfo (Vector3 1 2 3) 1)) 3 2 [24]]
   \<and> lastControlDown
        (managers (snd (processObservables 3 POINTERUP (Vector3 1 2 3) 5 1 pressed_world)) 0) 5 = None
   \<and> lastControlDown (managers pressed_world (host (controls pressed_world 3))) 6 = None
   \<and> trace (snd (processObservables 3 POINTERUP (Vector3 1 2 3) 6 1 pressed_world)) =
       trace pressed_world"
proof -
  have h1: "lastControlDown (managers pressed_world (host (controls pressed_world 3))) 5 = Some 2"
    and h2: "lastControlDown (managers pressed_world (host (controls pressed_world 3))) 6 = None"
    by (simp_all add: pressed_world_simps watched_def new_Control3D_def new_GUI3DManager_def)
  show ?thesis
    using h1 h2 up_routed_to_last_down [of 3 "Vector3 1 2 3" 5 1 pressed_world]
      up_routed_to_last_down [of 3 "Vector3 1 2 3" 6 1 pressed_world]
    by (simp add: pressed_world_simps watched_def new_Control3D_def up_events_def
        animation_events_def)
qed

text \<open>
  C4.  \<open>_onPointerUp\<close> always sets the down count to 0 and removes the pointer id from
  the down pointer ids.  It fires the click notification exactly when \<open>notifyClick\<close> is
  true and the enter count is positive at the call, and then before the up notification;
  the up notification always fires.
\<close>

theorem pointer_up_effect:
  "downCount (controls (onPointerUp this target coordinates pointerId buttonIndex notifyClick w)
      this) = 0
   \<and> downPointerIds
        (controls (onPointerUp this target coordinates pointerId buttonIndex notifyClick w) this) =
      AList.delete pointerId (downPointerIds (controls w this))
   \<and> pointerId \<notin> fst ` set (downPointerIds
        (controls (onPointerUp this target coordinates pointerId buttonIndex notifyClick w) this))
   \<and> trace (onPointerUp this target coordinates pointerId buttonIndex notifyClick w) =
       trace w @
       (if notifyClick \<and> enterCount (controls w this) > 0
        then [Notify (PointerClick (Vector3WithInfo coordinates buttonIndex)) target this
                (onPointerClickObservable (controls w this))]
        else []) @
       Notify (PointerUp (Vector3WithInfo coordinates buttonIndex)) target this
         (onPointerUpObservable (controls w this)) #
       animation_events (pointerUpAnimation (controls w this))"
  by (simp add: onPointerUp_effect up_events_def delete_notin_dom)

text \<open>
  C5 (down guard law).  With a nonzero down count \<open>_onPointerDown\<close> returns false and
  changes nothing: no notification, no new pointer id.  With a zero down count it
  returns true, increments the down count, records the pointer id and fires the down
  notification carrying the coordinates and the button index.
\<close>

theorem down_guard_law:
  "(downCount (controls w this) \<noteq> 0 \<longrightarrow>
      onPointerDown this target coordinates pointerId buttonIndex w = (False, w))
   \<and> (downCount (controls w this) = 0 \<longrightarrow>
      fst (onPointerDown this target coordinates pointerId buttonIndex w) = True
      \<and> downCount (controls (snd (onPointerDown this target coordinates pointerId buttonIndex w))
           this) = downCount (controls w this) + 1
      \<and> downPointerIds (controls (snd (onPointerDown this target coordinates pointerId buttonIndex w))
           this) = AList.update pointerId True (downPointerIds (controls w this))
      \<and> map_of (downPointerIds
           (controls (snd (onPointerDown this target coordinates pointerId buttonIndex w)) this))
          pointerId = Some True
      \<and> trace (snd (onPointerDown this target coordinates pointerId buttonIndex w)) =
          trace w @
          Notify (PointerDown (Vector3WithInfo coordinates buttonIndex)) target this
            (onPointerDownObservable (controls w this)) #
          animation_events (pointerDownAnimation (controls w this)))"
  by (simp add: onPointerDown_guard onPointerDown_fires update_conv')

theorem down_guard_law_witness:
  "downCount (controls pressed_world 2) \<noteq> 0
   \<and> onPointerDown 2 2 (Vector3 1 2 3) 6 1 pressed_world = (False, pressed_world)
   \<and> downCount (controls pressed_world 3) = 0
   \<and> fst (onPointerDown 3 3 (Vector3 1 2 3) 6 1 pressed_world) = True
   \<and> downCount (controls (snd (onPointerDown 3 3 (Vector3 1 2 3) 6 1 pressed_world)) 3) = 1
   \<and> downPointerIds (controls (snd (onPointerDown 3 3 (Vector3 1 2 3) 6 1 pressed_world)) 3) =
       [(6, True)]
   \<and> trace (snd (onPointerDown 3 3 (Vector3 1 2 3) 6 1 pressed_world)) =
       trace pressed_world @
       [Notify (PointerDown (Vector3WithInfo (Vector3 1 2 3) 1)) 3 3 [33]]"
proof -
  have h1: "downCount (controls pressed_world 2) \<noteq> 0"
    and h2: "downCount (controls pressed_world 3) = 0"
    by (simp_all add: pressed_world_simps watched_def new_Control3D_def)
  show ?thesis
    using h1 h2 down_guard_law [of pressed_world 2 2 "Vector3 1 2 3" 6 1]
      down_guard_law [of pressed_world 3 3 "Vector3 1 2 3" 6 1]
    by (simp add: pressed_world_simps watched_def new_Control3D_def animation_events_def)
qed

text \<open>
  C6, as the code has it.  \<open>forcePointerUp\<close> with a pointer id that is not among the down
  pointer ids leaves the down pointer ids unchanged, but it is not a no-op: it calls
  \<open>_onPointerUp\<close> unconditionally, which sets the down count to 0 and fires the up
  notification at the zero coordinate with button 0, targeted at the control itself,
  after the click notification when the control is entered.
\<close>

theorem forcePointerUp_unknown_id:
  assumes "pointerId \<notin> fst ` set (downPointerIds (controls w this))"
  shows "downPointerIds (controls (forcePointerUp this (Some pointerId) w) this) =
           downPointerIds (controls w this)
       \<and> downCount (controls (forcePointerUp this (Some pointerId) w) this) = 0
       \<and> trace (forcePointerUp this (Some pointerId) w) =
           trace w @
           (if enterCount (controls w this) > 0
            then [Notify (PointerClick (Vector3WithInfo Vector3_Zero 0)) this this
                    (onPointerClickObservable (controls w this))]
            else []) @
           Notify (PointerUp (Vector3WithInfo Vector3_Zero 0)) this this
             (onPointerUpObservable (controls w this)) #
           animation_events (pointerUpAnimation (controls w this))"
  using assms by (simp add: forcePointerUp_def onPointerUp_effect up_events_def)

theorem forcePointerUp_unknown_id_witness:
  "9 \<notin> fst ` set (downPointerIds (controls pressed_world 2))
   \<and> downPointerIds (controls (forcePointerUp 2 (Some 9) pressed_world) 2) = [(5, True)]
   \<and> downCount (controls (forcePointerUp 2 (Some 9) pressed_world) 2) = 0
   \<and> trace (forcePointerUp 2 (Some 9) pressed_world) =
       trace pressed_world @
       [Notify (PointerClick (Vector3WithInfo Vector3_Zero 0)) 2 2 [25],
        Notify (PointerUp (Vector3WithInfo Vector3_Zero 0)) 2 2 [24]]"
proof -
  have h: "9 \<notin> fst ` set (downPointerIds (controls pressed_world 2))"
    by (simp add: pressed_world_simps watched_def new_Control3D_def)
  show ?thesis
    using h forcePointerUp_unknown_id [OF h]
    by (simp add: pressed_world_simps watched_def new_Control3D_def animation_events_def)
qed

text \<open>
  C6 as stated fails: in \<open>pressed_world\<close> pointer 9 is not among the down pointer ids
  of control 2, and \<open>forcePointerUp(9)\<close> fires click and up and resets the down count
  from 1 to 0.
\<close>

theorem forcePointerUp_unknown_id_counterexample:
  "9 \<notin> fst ` set (downPointerIds (controls pressed_world 2))
   \<and> downCount (controls pressed_world 2) = 1
   \<and> downCount (controls (forcePointerUp 2 (Some 9) pressed_world) 2) = 0
   \<and> trace (forcePointerUp 2 (Some 9) pressed_world) =
       trace pressed_world @
       [Notify (PointerClick (Vector3WithInfo (Vector3 0 0 0) 0)) 2 2 [25],
        Notify (PointerUp (Vector3WithInfo (Vector3 0 0 0) 0)) 2 2 [24]]"
  by (simp add: forcePointerUp_def onPointerUp_effect up_events_def pressed_world_simps
      watched_def new_Control3D_def animation_events_def Vector3_Zero_def)

text \<open>
  C7.  \<open>forcePointerUp\<close> with no pointer id runs \<open>_onPointerUp\<close> at the zero coordinate,
  button 0, with \<open>notifyClick = true\<close> and the control itself as target, once for each
  pointer id among the down pointer ids (the loop visits every id exactly once), so that
  exactly one up notification fires per id; afterwards the down pointer ids are empty.
  The keys of the object \<open>_downPointerIds\<close> are distinct.
\<close>

theorem forcePointerUp_all:
  assumes "distinct (map fst (downPointerIds (controls w this)))"
  shows "trace (forcePointerUp this None w) =
           trace w @ concat (map (\<lambda>pointerId. up_events (controls w this) this this Vector3_Zero 0 True)
                               (forIn_keys (downPointerIds (controls w this))))
       \<and> distinct (forIn_keys (downPointerIds (controls w this)))
       \<and> set (forIn_keys (downPointerIds (controls w this))) =
           fst ` set (downPointerIds (controls w this))
       \<and> downPointerIds (controls (forcePointerUp this None w) this) = []"
proof -
  let ?ids = "downPointerIds (controls w this)"
  have d: "distinct (forIn_keys ?ids)" using assms by (rule distinct_forIn_keys)
  have s: "set (forIn_keys ?ids) = fst ` set ?ids" by (rule set_forIn_keys)
  have t: "trace (forcePointerUp_loop this (forIn_keys ?ids) w) =
     trace w @ concat (map (\<lambda>key. up_events (controls w this) this this Vector3_Zero 0 True)
        (forIn_keys ?ids))"
    using d s by (intro forcePointerUp_loop_trace) simp_all
  have e: "downPointerIds (controls (forcePointerUp_loop this (forIn_keys ?ids) w) this) = []"
    by (simp add: forcePointerUp_loop_ids s filter_empty_conv)
  show ?thesis
    using d s t e by (simp add: forcePointerUp_def)
qed

theorem forcePointerUp_all_witness:
  "distinct (map fst (downPointerIds (controls two_down_world 2)))
   \<and> downPointerIds (controls two_down_world 2) = [(5, True), (4, True)]
   \<and> forIn_keys (downPointerIds (controls two_down_world 2)) = [4, 5]
   \<and> trace (forcePointerUp 2 None two_down_world) =
       trace two_down_world @
       [Notify (PointerClick (Vector3WithInfo Vector3_Zero 0)) 2 2 [25],
        Notify (PointerUp (Vector3WithInfo Vector3_Zero 0)) 2 2 [24],
        Notify (PointerClick (Vector3WithInfo Vector3_Zero 0)) 2 2 [25],
        Notify (PointerUp (Vector3WithInfo Vector3_Zero 0)) 2 2 [24]]
   \<and> downPointerIds (controls (forcePointerUp 2 None two_down_world) 2) = []"
proof -
  have h: "distinct (map fst (downPointerIds (controls two_down_world 2)))"
    by (simp add: two_down_world_simps)
  have k: "forIn_keys (downPointerIds (controls two_down_world 2)) = [4, 5]"
    by (simp add: two_down_world_simps forIn_keys_def isArrayIndex_def)
  show ?thesis
    using h k forcePointerUp_all [OF h]
    by (simp add: two_down_world_simps up_events_def animation_events_def watched_def
        new_Control3D_def)
qed

text \<open>
  C8.  \<open>addBehavior\<close> is idempotent: a second call with the same behavior changes
  nothing.  For a behavior that was not in the list, the two calls together make one
  \<open>init\<close> call and one attachment, either one \<open>attach\<close> call at once or, when the scene
  is loading, one subscription to the scene's load completion and no \<open>attach\<close> call; the
  behavior list then holds the behavior exactly once, at its end.
\<close>

theorem addBehavior_idempotent:
  "addBehavior this behavior (addBehavior this behavior w) = addBehavior this behavior w
   \<and> (behavior \<notin> set (behaviors (controls w this)) \<longrightarrow>
        behaviors (controls (addBehavior this behavior (addBehavior this behavior w)) this) =
          behaviors (controls w this) @ [behavior]
        \<and> count_list
            (behaviors (controls (addBehavior this behavior (addBehavior this behavior w)) this))
            behavior = 1
        \<and> trace (addBehavior this behavior (addBehavior this behavior w)) =
            trace w @ BehaviorInit behavior #
              (if isLoading (scene (managers w (host (controls w this)))) then []
               else [BehaviorAttach behavior this])
        \<and> onDataLoadedObservable
            (scene (managers (addBehavior this behavior (addBehavior this behavior w))
               (host (controls w this)))) =
            onDataLoadedObservable (scene (managers w (host (controls w this)))) @
              (if isLoading (scene (managers w (host (controls w this))))
               then [(behavior, this)] else []))"
proof -
  have twice: "addBehavior this behavior (addBehavior this behavior w) =
      addBehavior this behavior w"
    by (rule addBehavior_present) (rule addBehavior_member)
  show ?thesis
    unfolding twice by (simp add: addBehavior_new count_list_0_iff)
qed

theorem addBehavior_idempotent_witness:
  "7 \<notin> set (behaviors (controls example_world 2))
   \<and> behaviors (controls (addBehavior 2 7 (addBehavior 2 7 example_world)) 2) = [7]
   \<and> trace (addBehavior 2 7 (addBehavior 2 7 example_world)) =
       [BehaviorInit 7, BehaviorAttach 7 2]
   \<and> onDataLoadedObservable (scene (managers (addBehavior 2 7 (addBehavior 2 7 example_world)) 0))
       = []
   \<and> 7 \<notin> set (behaviors (controls loading_world 2))
   \<and> behaviors (controls (addBehavior 2 7 (addBehavior 2 7 loading_world)) 2) = [7]
   \<and> trace (addBehavior 2 7 (addBehavior 2 7 loading_world)) = [BehaviorInit 7]
   \<and> onDataLoadedObservable (scene (managers (addBehavior 2 7 (addBehavior 2 7 loading_world)) 0))
       = [(7, 2)]"
proof -
  have h1: "7 \<notin> set (behaviors (controls example_world 2))"
    and h2: "7 \<notin> set (behaviors (controls loading_world 2))"
    by (simp_all add: loading_world_simps)
  show ?thesis
    using h1 h2 addBehavior_idempotent [of 2 7 example_world, THEN conjunct2]
      addBehavior_idempotent [of 2 7 loading_world, THEN conjunct2]
    by (simp add: loading_world_simps)
qed

text \<open>
  C9.  \<open>dispose\<close> clears the six notification channels of the control, so that
  whatever pointer operations are called afterwards, on this control or on others, no
  observer of this control is called again; it calls \<open>detach\<close> on every behavior of the
  list, in order, and leaves the list as it was.
\<close>

theorem dispose_clears_and_detaches:
  "onPointerMoveObservable (controls (dispose this w) this) = []
   \<and> onPointerOutObservable (controls (dispose this w) this) = []
   \<and> onPointerDownObservable (controls (dispose this w) this) = []
   \<and> onPointerUpObservable (controls (dispose this w) this) = []
   \<and> onPointerClickObservable (controls (dispose this w) this) = []
   \<and> onPointerEnterObservable (controls (dispose this w) this) = []
   \<and> concat (map (reached this)
        (drop (length (trace (dispose this w))) (trace (calls cs (dispose this w))))) = []
   \<and> trace (dispose this w) =
       trace w @ (case mesh (controls w this) of Some m \<Rightarrow> [MeshDispose m] | None \<Rightarrow> []) @
       map BehaviorDetach (behaviors (controls w this))
   \<and> behaviors (controls (dispose this w) this) = behaviors (controls w this)"
proof -
  have "channel n (controls (dispose this w) this) = []" for n
    by (simp add: dispose_effect channel_def split: notification.splits)
  then have "concat (map (reached this)
        (drop (length (trace (dispose this w))) (trace (calls cs (dispose this w))))) = []"
    by (intro steps_silent steps_calls)
  then show ?thesis
    by (simp add: dispose_effect)
qed

theorem dispose_clears_and_detaches_witness:
  "trace (calls [ProcessObservables 2 POINTERMOVE (Vector3 1 2 3) 5 0,
                 ProcessObservables 3 POINTERUP (Vector3 1 2 3) 5 0,
                 ForcePointerUp 2 (Some 5)]
            (dispose 2 (addBehavior 2 7 pressed_world))) =
     trace pressed_world @
     [BehaviorInit 7, BehaviorAttach 7 2, BehaviorDetach 7,
      Notify (PointerMove (Vector3 1 2 3)) 2 2 [],
      Notify (PointerClick (Vector3WithInfo (Vector3 1 2 3) 0)) 3 2 [],
      Notify (PointerUp (Vector3WithInfo (Vector3 1 2 3) 0)) 3 2 [],
      Notify (PointerClick (Vector3WithInfo Vector3_Zero 0)) 2 2 [],
      Notify (PointerUp (Vector3WithInfo Vector3_Zero 0)) 2 2 []]
   \<and> concat (map (reached 2)
        (drop (length (trace (dispose 2 (addBehavior 2 7 pressed_world))))
           (trace (calls [ProcessObservables 2 POINTERMOVE (Vector3 1 2 3) 5 0,
                          ProcessObservables 3 POINTERUP (Vector3 1 2 3) 5 0,
                          ForcePointerUp 2 (Some 5)]
                     (dispose 2 (addBehavior 2 7 pressed_world)))))) = []
   \<and> behaviors (controls (dispose 2 (addBehavior 2 7 pressed_world)) 2) = [7]"
proof -
  have t: "trace (calls [ProcessObservables 2 POINTERMOVE (Vector3 1 2 3) 5 0,
                 ProcessObservables 3 POINTERUP (Vector3 1 2 3) 5 0,
                 ForcePointerUp 2 (Some 5)]
            (dispose 2 (addBehavior 2 7 pressed_world))) =
     trace pressed_world @
     [BehaviorInit 7, BehaviorAttach 7 2, BehaviorDetach 7,
      Notify (PointerMove (Vector3 1 2 3)) 2 2 [],
      Notify (PointerClick (Vector3WithInfo (Vector3 1 2 3) 0)) 3 2 [],
      Notify (PointerUp (Vector3WithInfo (Vector3 1 2 3) 0)) 3 2 [],
      Notify (PointerClick (Vector3WithInfo Vector3_Zero 0)) 2 2 [],
      Notify (PointerUp (Vector3WithInfo Vector3_Zero 0)) 2 2 []]"
    by (simp add: calls_def processObservables_def Let_def onPointerMove_def
        onPointerOut_effect onPointerEnter_def onPointerUp_effect forcePointerUp_def
        up_events_def animation_events_def dispose_effect equipped_world_simps
        pressed_world_simps watched_def new_Control3D_def new_GUI3DManager_def)
  show ?thesis
    using t dispose_clears_and_detaches
      [of 2 "addBehavior 2 7 pressed_world"
         "[ProcessObservables 2 POINTERMOVE (Vector3 1 2 3) 5 0,
           ProcessObservables 3 POINTERUP (Vector3 1 2 3) 5 0,
           ForcePointerUp 2 (Some 5)]"]
    by (simp add: equipped_world_simps pressed_world_simps watched_def new_Control3D_def)
qed

text \<open>
  C10.  Routing a DOWN through the entry point of a control always returns true and
  records the control as the manager's \<open>lastControlDown\<close> for the pointer id and as
  \<open>lastPickedControl\<close>, also when the down count is nonzero and the guard of
  \<open>_onPointerDown\<close> fires nothing and changes no control.
\<close>

theorem down_routing_updates_manager:
  "fst (processObservables this POINTERDOWN pickedPoint pointerId buttonIndex w) = True
   \<and> lastControlDown
        (managers (snd (processObservables this POINTERDOWN pickedPoint pointerId buttonIndex w))
           (host (controls w this))) pointerId = Some this
   \<and> lastPickedControl
        (managers (snd (processObservables this POINTERDOWN pickedPoint pointerId buttonIndex w))
           (host (controls w this))) = Some this
   \<and> (downCount (controls w this) \<noteq> 0 \<longrightarrow>
        trace (snd (processObservables this POINTERDOWN pickedPoint pointerId buttonIndex w)) =
          trace w
        \<and> controls (snd (processObservables this POINTERDOWN pickedPoint pointerId buttonIndex w)) =
            controls w)"
  by (simp add: processObservables_def Let_def onPointerDown_guard)

theorem down_routing_updates_manager_witness:
  "downCount (controls pressed_world 2) \<noteq> 0
   \<and> fst (processObservables 2 POINTERDOWN (Vector3 1 2 3) 6 1 pressed_world) = True
   \<and> lastControlDown
        (managers (snd (processObservables 2 POINTERDOWN (Vector3 1 2 3) 6 1 pressed_world)) 0) 6
       = Some 2
   \<and> lastPickedControl
        (managers (snd (processObservables 2 POINTERDOWN (Vector3 1 2 3) 6 1 pressed_world)) 0)
       = Some 2
   \<and> trace (snd (processObservables 2 POINTERDOWN (Vector3 1 2 3) 6 1 pressed_world)) =
       trace pressed_world
   \<and> downPointerIds
        (controls (snd (processObservables 2 POINTERDOWN (Vector3 1 2 3) 6 1 pressed_world)) 2) =
       [(5, True)]"
proof -
  have h: "downCount (controls pressed_world 2) \<noteq> 0"
    by (simp add: pressed_world_simps watched_def new_Control3D_def)
  show ?thesis
    using h down_routing_updates_manager [of 2 "Vector3 1 2 3" 6 1 pressed_world]
    by (simp add: pressed_world_simps watched_def new_Control3D_def)
qed

end
